theory Spec2Isabelle
  imports Main "HOL-Library.Word" "HOL-Library.AList"
begin

section \<open>JavaScript values\<close>

text \<open>
  A byte of a \<^verbatim>\<open>Uint8Array\<close>. The headers object of a request (\<^verbatim>\<open>Headers\<close>), whose keys the
  service enumerates, is the association list of its own properties in the order
  \<^verbatim>\<open>Object.keys\<close> gives them; a well-formed object has distinct keys. The object literal
  \<^verbatim>\<open>{...headers, 'Proxy-Authorization': authorization}\<close> is \<open>AList.update\<close>: the spread copies
  the properties in that order, and the key after it keeps its place when it is already
  there and goes last when it is new (it is not an array index, which would be enumerated
  before the other names). An optional property (\<^verbatim>\<open>headers?: Headers\<close>) is an \<open>option\<close>, \<open>None\<close>
  for \<^verbatim>\<open>undefined\<close>. Status codes and timeouts are integers.
\<close>

type_synonym byte = "8 word"

type_synonym Headers = "(string \<times> string) list"

text \<open>Truthiness, as \<^verbatim>\<open>&&\<close>, \<^verbatim>\<open>||\<close> and \<^verbatim>\<open>if\<close> test it: the empty string, \<^verbatim>\<open>0\<close> and
  \<^verbatim>\<open>undefined\<close> are falsy.\<close>

definition truthy_string :: "string option \<Rightarrow> bool" where
  "truthy_string v = (case v of None \<Rightarrow> False | Some s \<Rightarrow> s \<noteq> [])"

definition truthy_number :: "int option \<Rightarrow> bool" where
  "truthy_number v = (case v of None \<Rightarrow> False | Some n \<Rightarrow> n \<noteq> 0)"

text \<open>\<^verbatim>\<open>a || b\<close> on optional strings, and with a string literal on the right.\<close>

definition or_undefined :: "string option \<Rightarrow> string option \<Rightarrow> string option" where
  "or_undefined a b = (if truthy_string a then a else b)"

definition or_else :: "string option \<Rightarrow> string \<Rightarrow> string" where
  "or_else a b = (case a of None \<Rightarrow> b | Some s \<Rightarrow> if s \<noteq> [] then s else b)"

text \<open>String concatenation with a number (\<^verbatim>\<open>'Server returned ' + statusCode\<close>): the decimal
  digits of an integer, \<^verbatim>\<open>undefined\<close> for a missing one.\<close>

definition digit_char :: "nat \<Rightarrow> char" where
  "digit_char d = ''0123456789'' ! d"

fun string_of_nat :: "nat \<Rightarrow> string" where
  "string_of_nat n =
     (if n < 10 then [digit_char n] else string_of_nat (n div 10) @ [digit_char (n mod 10)])"

definition number_toString :: "int \<Rightarrow> string" where
  "number_toString i =
     (if i < 0 then CHR ''-'' # string_of_nat (nat (- i)) else string_of_nat (nat i))"

definition concat_number :: "int option \<Rightarrow> string" where
  "concat_number v = (case v of None \<Rightarrow> ''undefined'' | Some i \<Rightarrow> number_toString i)"

text \<open>What a promise rejects with, or a function throws: an \<^verbatim>\<open>Error\<close> with its message, the
  \<^verbatim>\<open>SyntaxError\<close> of \<^verbatim>\<open>JSON.parse\<close> with its message, the \<^verbatim>\<open>TypeError\<close> of reading a
  property (named here) of \<^verbatim>\<open>undefined\<close>, or nothing at all (\<^verbatim>\<open>reject()\<close>).\<close>

datatype exn = Error string | SyntaxError string | TypeError string | NoReason

text \<open>A promise: still pending (for ever, when it is the final state), fulfilled with a
  value, or rejected. \<^verbatim>\<open>resolve\<close> and \<^verbatim>\<open>reject\<close> settle a pending promise and do nothing to
  a settled one.\<close>

datatype 'a promise = Pending | Fulfilled 'a | Rejected exn

definition settle :: "'a promise \<Rightarrow> 'a promise \<Rightarrow> 'a promise" where
  "settle p outcome = (case p of Pending \<Rightarrow> outcome | _ \<Rightarrow> p)"

subsection \<open>String methods on header text\<close>

text \<open>
  \<^verbatim>\<open>getAllResponseHeaders()\<close> returns a byte string: every character is a code unit below
  256, which is what \<open>char\<close> holds. On such characters \<^verbatim>\<open>trim\<close> removes tab, line feed,
  vertical tab, form feed, carriage return, space and the no-break space, and
  \<^verbatim>\<open>toLowerCase\<close> maps \<^verbatim>\<open>A\<close>-\<^verbatim>\<open>Z\<close> and the Latin-1 capitals (C0-D6, D8-DE) 32 places up.
\<close>

definition isWhiteSpace :: "char \<Rightarrow> bool" where
  "isWhiteSpace c = (c \<in> set [CHR 0x09, CHR 0x0A, CHR 0x0B, CHR 0x0C, CHR 0x0D, CHR 0x20, CHR 0xA0])"

definition trim :: "string \<Rightarrow> string" where
  "trim s = rev (dropWhile isWhiteSpace (rev (dropWhile isWhiteSpace s)))"

definition lower_char :: "char \<Rightarrow> char" where
  "lower_char c =
     (let n = of_char c :: nat in
      if (65 \<le> n \<and> n \<le> 90) \<or> (192 \<le> n \<and> n \<le> 214) \<or> (216 \<le> n \<and> n \<le> 222)
      then char_of (n + 32) else c)"

definition toLowerCase :: "string \<Rightarrow> string" where
  "toLowerCase s = map lower_char s"

text \<open>\<^verbatim>\<open>s.indexOf(c)\<close>: the first index of \<open>c\<close>, or -1.\<close>

fun indexOf :: "string \<Rightarrow> char \<Rightarrow> int" where
  "indexOf [] c = - 1"
| "indexOf (x # xs) c =
     (if x = c then 0 else (let i = indexOf xs c in if i < 0 then - 1 else i + 1))"

text \<open>\<^verbatim>\<open>s.substr(start, length)\<close>: a negative start counts from the end, a missing length
  runs to the end, a negative length gives the empty string.\<close>

definition substr :: "string \<Rightarrow> int \<Rightarrow> int option \<Rightarrow> string" where
  "substr s start len =
     (let size = int (length s);
          st = (if start < 0 then max (size + start) 0 else min start size);
          n = (case len of None \<Rightarrow> size - st | Some l \<Rightarrow> min (max l 0) (size - st))
      in take (nat n) (drop (nat st) s))"

text \<open>\<^verbatim>\<open>s.split\<close> on the pattern CR LF, or LF, or CR, at every match: a carriage return
  followed by a line feed is one separator; the text after the last separator is the last
  element, also when empty.\<close>

fun split_lines_from :: "string \<Rightarrow> string \<Rightarrow> string list" where
  "split_lines_from cur [] = [cur]"
| "split_lines_from cur [c] =
     (if c = CHR 0x0D \<or> c = CHR 0x0A then [cur, []] else [cur @ [c]])"
| "split_lines_from cur (c # d # ds) =
     (if c = CHR 0x0D \<and> d = CHR 0x0A then cur # split_lines_from [] ds
      else if c = CHR 0x0D \<or> c = CHR 0x0A then cur # split_lines_from [] (d # ds)
      else split_lines_from (cur @ [c]) (d # ds))"

definition split_lines :: "string \<Rightarrow> string list" where
  "split_lines s = split_lines_from [] s"

section \<open>The request descriptor and the result model (common/request)\<close>

record RequestOptions =
  type :: "string option"
  url :: string
  user :: "string option"
  password :: "string option"
  headers :: "Headers option"
  timeout :: "int option"
  data :: "string option"
  followRedirects :: "int option"
  proxyAuthorization :: "string option"

text \<open>The headers of a response are read by name only, never enumerated: they are the map
  from the names of the object's own properties to their values.\<close>

record Response =
  headers :: "string \<rightharpoonup> string"
  statusCode :: "int option"

text \<open>The buffer is a \<^verbatim>\<open>BinaryBuffer\<close> over bytes (\<open>byte list\<close>), except in what the
  backend transfers, where it is \<^verbatim>\<open>{data: number[]}\<close> (\<open>int list\<close>).\<close>

record 'b RequestContext =
  res :: Response
  buffer :: "'b"

text \<open>
  \<^verbatim>\<open>return (context.res.statusCode && context.res.statusCode >= 200 &&
           context.res.statusCode < 300) || context.res.statusCode === 1223;\<close>
\<close>

definition isSuccess :: "'b RequestContext \<Rightarrow> bool" where
  "isSuccess context =
     (let sc = statusCode (res context) in
      (truthy_number sc \<and> (case sc of None \<Rightarrow> False | Some s \<Rightarrow> s \<ge> 200 \<and> s < 300))
      \<or> sc = Some 1223)"

definition hasNoContent :: "'b RequestContext \<Rightarrow> bool" where
  "hasNoContent context = (statusCode (res context) = Some 204)"

text \<open>
  \<^verbatim>\<open>BinaryBuffer.toString\<close> (common/buffer) is taken as the parameter \<open>toString\<close>, and
  \<^verbatim>\<open>JSON.parse\<close> as the parameter \<open>JSON_parse\<close>: \<open>Inl m\<close> is the \<^verbatim>\<open>SyntaxError\<close> with message
  \<open>m\<close> it throws, \<open>Inr v\<close> the value it returns. Both functions are \<^verbatim>\<open>async\<close>: \<open>Inl\<close> is the
  rejection of the promise they return.
\<close>

definition asText :: "('b \<Rightarrow> string) \<Rightarrow> 'b RequestContext \<Rightarrow> exn + string" where
  "asText toString context =
     (if \<not> isSuccess context
      then Inl (Error (''Server returned '' @ concat_number (statusCode (res context))))
      else if hasNoContent context then Inr ''''
      else Inr (toString (buffer context)))"

definition asJson ::
  "('b \<Rightarrow> string) \<Rightarrow> (string \<Rightarrow> string + 'j) \<Rightarrow> 'b RequestContext \<Rightarrow> exn + 'j" where
  "asJson toString JSON_parse context =
     (if \<not> isSuccess context
      then Inl (Error (''Server returned '' @ concat_number (statusCode (res context))))
      else let str = toString (buffer context) in
        (case JSON_parse str of
           Inr v \<Rightarrow> Inr v
         | Inl m \<Rightarrow> Inl (SyntaxError (m @ '':'' @ [CHR 0x0A] @ str))))"

text \<open>A configuration object: each property may be absent (\<open>None\<close>), or present with a
  value that may be \<^verbatim>\<open>undefined\<close> (\<open>Some None\<close>); \<^verbatim>\<open>'proxyAuthorization' in config\<close> tells
  the two apart.\<close>

record RequestConfiguration =
  proxyUrl :: "string option option"
  proxyAuthorization :: "string option option"
  strictSSL :: "bool option option"

section \<open>The delegating strategy (\<^verbatim>\<open>DefaultBrowserRequestService\<close>)\<close>

text \<open>
  The service's only state is the injected backend service; of the backend the model keeps
  the configurations it has been sent, in order. The native strategy extends the record as
  the class extends the class.
\<close>

record DefaultBrowserRequestService =
  backendConfigured :: "RequestConfiguration list"

record XHRBrowserRequestService = DefaultBrowserRequestService +
  authorization :: "string option"

text \<open>
  A preference-change event maps preference names to changes. The listener of \<^verbatim>\<open>init\<close>
  reads four names, one field each: \<^verbatim>\<open>'http.proxy'\<close>, \<^verbatim>\<open>'http.proxyAuthorization'\<close>,
  \<^verbatim>\<open>'http.proxyStrictSSL'\<close> and \<^verbatim>\<open>'proxyAuthorization'\<close> (\<open>bare_proxyAuthorization\<close>); \<open>None\<close>
  is a name the event does not contain. A change's \<^verbatim>\<open>newValue\<close> is typed \<^verbatim>\<open>any\<close>; here it has
  the type of the configuration property it is assigned to, and may be \<^verbatim>\<open>undefined\<close>.
\<close>

record 'a PreferenceChange =
  newValue :: "'a"
  oldValue :: "'a"

record PreferenceChanges =
  http_proxy :: "string option PreferenceChange option"
  http_proxyAuthorization :: "string option PreferenceChange option"
  http_proxyStrictSSL :: "bool option PreferenceChange option"
  bare_proxyAuthorization :: "string option PreferenceChange option"

text \<open>
  The configuration the listener builds, or the \<^verbatim>\<open>TypeError\<close> it throws:
  \<^verbatim>\<open>
  const config: RequestConfiguration = {};
  if ('http.proxy' in e) { config.proxyUrl = e['http.proxy'].newValue; }
  if ('http.proxyAuthorization' in e) {
      config.proxyAuthorization = e['proxyAuthorization'].newValue; }
  if ('http.proxyStrictSSL' in e) { config.strictSSL = e['http.proxyStrictSSL'].newValue; }
  \<close>
\<close>

definition init_config :: "PreferenceChanges \<Rightarrow> exn + RequestConfiguration" where
  "init_config e =
     (let config = \<lparr>proxyUrl = None, proxyAuthorization = None, strictSSL = None\<rparr>;
          config1 = (case http_proxy e of
                       Some change \<Rightarrow> config\<lparr>proxyUrl := Some (newValue change)\<rparr>
                     | None \<Rightarrow> config);
          config2 = (case http_proxyAuthorization e of
                       Some _ \<Rightarrow>
                         (case bare_proxyAuthorization e of
                            None \<Rightarrow> Inl (TypeError ''newValue'')
                          | Some change \<Rightarrow>
                              Inr (config1\<lparr>proxyAuthorization := Some (newValue change)\<rparr>))
                     | None \<Rightarrow> Inr config1)
      in case config2 of
           Inl err \<Rightarrow> Inl err
         | Inr c \<Rightarrow>
             (case http_proxyStrictSSL e of
                Some change \<Rightarrow> Inr (c\<lparr>strictSSL := Some (newValue change)\<rparr>)
              | None \<Rightarrow> Inr c))"

text \<open>The listener: \<^verbatim>\<open>this.configure(config)\<close> is the \<open>configure\<close> of the service's own class,
  the parameter here. \<open>Inl\<close> is the exception leaving the listener: \<open>configure\<close> was not
  called and the service is as it was.\<close>

definition init_listener ::
  "(RequestConfiguration \<Rightarrow> 's \<Rightarrow> 's) \<Rightarrow> PreferenceChanges \<Rightarrow> 's \<Rightarrow> exn + 's" where
  "init_listener configure e this =
     (case init_config e of Inl err \<Rightarrow> Inl err | Inr config \<Rightarrow> Inr (configure config this))"

definition Default_configure ::
  "RequestConfiguration \<Rightarrow> 'a DefaultBrowserRequestService_scheme
     \<Rightarrow> 'a DefaultBrowserRequestService_scheme" where
  "Default_configure config this =
     this\<lparr>backendConfigured := backendConfigured this @ [config]\<rparr>"

text \<open>\<^verbatim>\<open>BinaryBuffer.wrap(Uint8Array.from(transferedBuffer.data))\<close>: every number is taken
  modulo 256.\<close>

definition transformBackendResponse :: "int list RequestContext \<Rightarrow> byte list RequestContext" where
  "transformBackendResponse context =
     \<lparr>res = res context, buffer = map word_of_int (buffer context)\<rparr>"

text \<open>\<open>ready\<close> is the promise \<^verbatim>\<open>preferenceService.ready\<close> and \<open>backend_request\<close> the backend's
  \<^verbatim>\<open>request\<close>; an \<^verbatim>\<open>await\<close> of a promise that stays pending never returns.\<close>

definition Default_request ::
  "unit promise \<Rightarrow> (RequestOptions \<Rightarrow> int list RequestContext promise) \<Rightarrow> RequestOptions
     \<Rightarrow> byte list RequestContext promise" where
  "Default_request ready backend_request options =
     (case ready of
        Pending \<Rightarrow> Pending
      | Rejected err \<Rightarrow> Rejected err
      | Fulfilled _ \<Rightarrow>
          (case backend_request options of
             Pending \<Rightarrow> Pending
           | Rejected err \<Rightarrow> Rejected err
           | Fulfilled backendResult \<Rightarrow> Fulfilled (transformBackendResponse backendResult)))"

section \<open>The native strategy (\<^verbatim>\<open>XHRBrowserRequestService\<close>)\<close>

definition XHR_configure ::
  "RequestConfiguration \<Rightarrow> XHRBrowserRequestService \<Rightarrow> XHRBrowserRequestService" where
  "XHR_configure config this =
     Default_configure config
       (case proxyAuthorization config of
          Some v \<Rightarrow> this\<lparr>authorization := v\<rparr>
        | None \<Rightarrow> this)"

text \<open>The calls the service makes on its \<^verbatim>\<open>XMLHttpRequest\<close>, and the events the request and
  the cancellation token deliver to the handlers the service installs: \<^verbatim>\<open>onload\<close> (with
  \<^verbatim>\<open>xhr.status\<close>, \<^verbatim>\<open>xhr.getAllResponseHeaders()\<close> and the bytes of \<^verbatim>\<open>xhr.response\<close>),
  \<^verbatim>\<open>onerror\<close> (with \<^verbatim>\<open>xhr.statusText\<close>), \<^verbatim>\<open>ontimeout\<close>, the token's cancellation, and any
  other event of the request (progress, ready-state change), for which no handler is
  installed. The calls themselves are taken to return: an exception thrown by one of them
  is not modelled.\<close>

datatype xhr_call =
    Open string string bool "string option" "string option"
  | SetRequestHeader string string
  | SetResponseType string
  | SetTimeout int
  | Send "string option"
  | Abort

datatype xhr_event =
    OnLoad int string "byte list"
  | OnError string
  | OnTimeout
  | OnCancellationRequested
  | OnProgress

record xhr_state =
  calls :: "xhr_call list"
  settled :: "byte list RequestContext promise"

text \<open>\<^verbatim>\<open>options.headers[k]\<close>; a missing property reads as \<^verbatim>\<open>undefined\<close>, which
  \<^verbatim>\<open>setRequestHeader\<close> turns into the string \<^verbatim>\<open>undefined\<close>.\<close>

definition header_value :: "Headers \<Rightarrow> string \<Rightarrow> string" where
  "header_value hs k = (case map_of hs k of Some v \<Rightarrow> v | None \<Rightarrow> ''undefined'')"

fun setRequestHeaders_loop :: "Headers \<Rightarrow> string list \<Rightarrow> xhr_call list" where
  "setRequestHeaders_loop hs [] = []"
| "setRequestHeaders_loop hs (k # ks) =
     (if k = ''User-Agent'' \<or> k = ''Accept-Encoding'' \<or> k = ''Content-Length''
      then setRequestHeaders_loop hs ks
      else SetRequestHeader k (header_value hs k) # setRequestHeaders_loop hs ks)"

definition setRequestHeaders :: "RequestOptions \<Rightarrow> xhr_call list" where
  "setRequestHeaders options =
     (case RequestOptions.headers options of
        None \<Rightarrow> []
      | Some hs \<Rightarrow> setRequestHeaders_loop hs (map fst hs))"

text \<open>One line of the response-header block: \<^verbatim>\<open>idx = line.indexOf(':')\<close>, the name
  \<^verbatim>\<open>line.substr(0, idx).trim().toLowerCase()\<close>, the value \<^verbatim>\<open>line.substr(idx + 1).trim()\<close>.\<close>

definition header_line :: "string \<Rightarrow> string \<times> string" where
  "header_line line =
     (let idx = indexOf line (CHR '':'')
      in (toLowerCase (trim (substr line 0 (Some idx))), trim (substr line (idx + 1) None)))"

text \<open>\<^verbatim>\<open>headers[name] = value\<close> on the plain object \<^verbatim>\<open>headers = {}\<close>, with a string for the
  value: the object gets the property, or has its value replaced, for every name but
  \<^verbatim>\<open>__proto__\<close>. That name is the accessor of \<^verbatim>\<open>Object.prototype\<close>: the assignment calls its
  setter, which does nothing when given a string, and the object gets no property.\<close>

definition set_header ::
  "string \<Rightarrow> string \<Rightarrow> (string \<rightharpoonup> string) \<Rightarrow> (string \<rightharpoonup> string)" where
  "set_header name v object = (if name = ''__proto__'' then object else object(name \<mapsto> v))"

definition getResponseHeaders :: "string \<Rightarrow> (string \<rightharpoonup> string)" where
  "getResponseHeaders allResponseHeaders =
     foldl (\<lambda>headers line.
              if line \<noteq> [] then set_header (fst (header_line line)) (snd (header_line line)) headers
              else headers)
       Map.empty (split_lines allResponseHeaders)"

text \<open>The start of \<^verbatim>\<open>xhrRequest\<close>: the authorization in effect, the caller's options
  object after the assignment to \<^verbatim>\<open>options.headers\<close>, and the calls made before the promise
  is returned.\<close>

definition xhr_authorization :: "XHRBrowserRequestService \<Rightarrow> RequestOptions \<Rightarrow> string option" where
  "xhr_authorization this options =
     or_undefined (authorization this) (RequestOptions.proxyAuthorization options)"

definition xhr_options :: "XHRBrowserRequestService \<Rightarrow> RequestOptions \<Rightarrow> RequestOptions" where
  "xhr_options this options =
     (case xhr_authorization this options of
        None \<Rightarrow> options
      | Some a \<Rightarrow>
          if a \<noteq> [] then
            options\<lparr>RequestOptions.headers :=
              Some (AList.update ''Proxy-Authorization'' a
                (case RequestOptions.headers options of None \<Rightarrow> [] | Some hs \<Rightarrow> hs))\<rparr>
          else options)"

text \<open>\<^verbatim>\<open>if (options.timeout) { xhr.timeout = options.timeout; }\<close>\<close>

definition set_timeout :: "RequestOptions \<Rightarrow> xhr_call list" where
  "set_timeout options =
     (case timeout options of
        None \<Rightarrow> []
      | Some t \<Rightarrow> if t \<noteq> 0 then [SetTimeout t] else [])"

definition xhr_start :: "RequestOptions \<Rightarrow> xhr_state" where
  "xhr_start options =
     \<lparr>calls =
        [Open (or_else (type options) ''GET'') (or_else (Some (url options)) '''') True
           (user options) (password options)]
        @ setRequestHeaders options
        @ [SetResponseType ''arraybuffer'']
        @ set_timeout options
        @ [Send (data options)],
      settled = Pending\<rparr>"

text \<open>The handlers, one event each.\<close>

definition xhr_handle :: "RequestOptions \<Rightarrow> xhr_state \<Rightarrow> xhr_event \<Rightarrow> xhr_state" where
  "xhr_handle options st ev =
     (case ev of
        OnLoad status allResponseHeaders response \<Rightarrow>
          st\<lparr>settled := settle (settled st)
            (Fulfilled
              \<lparr>res = \<lparr>headers = getResponseHeaders allResponseHeaders, statusCode = Some status\<rparr>,
               buffer = response\<rparr>)\<rparr>
      | OnError statusText \<Rightarrow>
          st\<lparr>settled := settle (settled st)
            (Rejected (Error (if statusText \<noteq> [] then ''XHR failed: '' @ statusText
                              else ''XHR failed'')))\<rparr>
      | OnTimeout \<Rightarrow>
          st\<lparr>settled := settle (settled st)
            (Rejected (Error (''XHR timeout: '' @ concat_number (timeout options) @ ''ms'')))\<rparr>
      | OnCancellationRequested \<Rightarrow>
          st\<lparr>calls := calls st @ [Abort], settled := settle (settled st) (Rejected NoReason)\<rparr>
      | OnProgress \<Rightarrow> st)"

definition xhrRequest ::
  "XHRBrowserRequestService \<Rightarrow> RequestOptions \<Rightarrow> xhr_event list \<Rightarrow> xhr_state" where
  "xhrRequest this options events =
     foldl (xhr_handle (xhr_options this options)) (xhr_start (xhr_options this options)) events"

text \<open>A run of \<^verbatim>\<open>request\<close>: the promise it returns, the options object each call of
  \<^verbatim>\<open>super.request\<close> was given, and the calls made on the native request.\<close>

record request_run =
  returned :: "byte list RequestContext promise"
  delegated :: "RequestOptions list"
  native_calls :: "xhr_call list"

definition XHR_request ::
  "unit promise \<Rightarrow> (RequestOptions \<Rightarrow> int list RequestContext promise)
     \<Rightarrow> XHRBrowserRequestService \<Rightarrow> RequestOptions \<Rightarrow> xhr_event list \<Rightarrow> request_run" where
  "XHR_request ready backend_request this options events =
     (let st = xhrRequest this options events;
          options' = xhr_options this options
      in case settled st of
           Pending \<Rightarrow> \<lparr>returned = Pending, delegated = [], native_calls = calls st\<rparr>
         | Fulfilled xhrResult \<Rightarrow>
             if statusCode (res xhrResult) = Some 405
             then \<lparr>returned = Default_request ready backend_request options',
                   delegated = [options'], native_calls = calls st\<rparr>
             else \<lparr>returned = Fulfilled xhrResult, delegated = [], native_calls = calls st\<rparr>
         | Rejected _ \<Rightarrow>
             \<lparr>returned = Default_request ready backend_request options',
              delegated = [options'], native_calls = calls st\<rparr>)"

section \<open>Properties of the result model\<close>

text \<open>
  C2. For every response, \<open>isSuccess\<close> holds exactly when the status code is present and lies
  in the range from 200 (included) to 300 (excluded) or equals 1223; with no status code
  (\<^verbatim>\<open>undefined\<close>) it is false.
\<close>

theorem isSuccess_iff_status_in_range:
  "(isSuccess context \<longleftrightarrow>
      (\<exists>s. statusCode (res context) = Some s \<and> ((200 \<le> s \<and> s < 300) \<or> s = 1223)))
   \<and> (statusCode (res context) = None \<longrightarrow> \<not> isSuccess context)"
  by (auto simp: isSuccess_def Let_def truthy_number_def split: option.splits)

theorem isSuccess_iff_status_in_range_witness:
  "isSuccess \<lparr>res = \<lparr>headers = Map.empty, statusCode = Some 200\<rparr>, buffer = [] :: byte list\<rparr>
   \<and> isSuccess \<lparr>res = \<lparr>headers = Map.empty, statusCode = Some 1223\<rparr>, buffer = [] :: byte list\<rparr>
   \<and> \<not> isSuccess \<lparr>res = \<lparr>headers = Map.empty, statusCode = Some 300\<rparr>, buffer = [] :: byte list\<rparr>
   \<and> \<not> isSuccess \<lparr>res = \<lparr>headers = Map.empty, statusCode = None\<rparr>, buffer = [] :: byte list\<rparr>"
  using isSuccess_iff_status_in_range [of "\<lparr>res = \<lparr>headers = Map.empty, statusCode = Some 200\<rparr>, buffer = [] :: byte list\<rparr>"]
    isSuccess_iff_status_in_range [of "\<lparr>res = \<lparr>headers = Map.empty, statusCode = Some 1223\<rparr>, buffer = [] :: byte list\<rparr>"]
    isSuccess_iff_status_in_range [of "\<lparr>res = \<lparr>headers = Map.empty, statusCode = Some 300\<rparr>, buffer = [] :: byte list\<rparr>"]
    isSuccess_iff_status_in_range [of "\<lparr>res = \<lparr>headers = Map.empty, statusCode = None\<rparr>, buffer = [] :: byte list\<rparr>"]
  by simp

text \<open>
  C3. \<open>asText\<close> rejects with the error \<^verbatim>\<open>'Server returned ' + statusCode\<close> whenever
  \<open>isSuccess\<close> is false; it returns the empty string when the status code is 204, whatever
  the buffer holds; in every other case it returns the buffer's \<open>toString\<close>.
\<close>

theorem asText_cases:
  "(\<not> isSuccess context \<longrightarrow>
      asText toString context =
        Inl (Error (''Server returned '' @ concat_number (statusCode (res context)))))
   \<and> (statusCode (res context) = Some 204 \<longrightarrow> asText toString context = Inr '''')
   \<and> (isSuccess context \<and> statusCode (res context) \<noteq> Some 204 \<longrightarrow>
      asText toString context = Inr (toString (buffer context)))"
  by (auto simp: asText_def hasNoContent_def isSuccess_def Let_def truthy_number_def)

theorem asText_cases_witness:
  "asText (map (\<lambda>b. if b = 104 then CHR ''h'' else CHR ''i'')) \<lparr>res = \<lparr>headers = Map.empty, statusCode = Some 404\<rparr>, buffer = [104, 105 :: byte]\<rparr>
     = Inl (Error ''Server returned 404'')
   \<and> asText (map (\<lambda>b. if b = 104 then CHR ''h'' else CHR ''i'')) \<lparr>res = \<lparr>headers = Map.empty, statusCode = Some 204\<rparr>, buffer = [104, 105 :: byte]\<rparr>
     = Inr ''''
   \<and> asText (map (\<lambda>b. if b = 104 then CHR ''h'' else CHR ''i'')) \<lparr>res = \<lparr>headers = Map.empty, statusCode = Some 200\<rparr>, buffer = [104, 105 :: byte]\<rparr>
     = Inr ''hi''"
  using asText_cases [of "\<lparr>res = \<lparr>headers = Map.empty, statusCode = Some 404\<rparr>, buffer = [104, 105 :: byte]\<rparr>" "map (\<lambda>b. if b = 104 then CHR ''h'' else CHR ''i'')"]
    asText_cases [of "\<lparr>res = \<lparr>headers = Map.empty, statusCode = Some 204\<rparr>, buffer = [104, 105 :: byte]\<rparr>" "map (\<lambda>b. if b = 104 then CHR ''h'' else CHR ''i'')"]
    asText_cases [of "\<lparr>res = \<lparr>headers = Map.empty, statusCode = Some 200\<rparr>, buffer = [104, 105 :: byte]\<rparr>" "map (\<lambda>b. if b = 104 then CHR ''h'' else CHR ''i'')"]
  by (simp add: isSuccess_def Let_def truthy_number_def concat_number_def number_toString_def digit_char_def)

text \<open>
  C4. \<open>asJson\<close> makes the success check of \<open>asText\<close>: when \<open>isSuccess\<close> is false both reject with
  the same \<^verbatim>\<open>'Server returned ' + statusCode\<close> error. On a success it always parses the
  buffer's text, also when the status code is 204: it returns what the parser returns, and
  when the parser throws with message \<open>m\<close> it rejects with that error, its message now \<open>m\<close>
  followed by a colon, a newline and the text that was parsed.
\<close>

theorem asJson_cases:
  "(\<not> isSuccess context \<longrightarrow>
      asJson toString JSON_parse context =
        Inl (Error (''Server returned '' @ concat_number (statusCode (res context))))
      \<and> asText toString context =
        Inl (Error (''Server returned '' @ concat_number (statusCode (res context)))))
   \<and> (isSuccess context \<and> JSON_parse (toString (buffer context)) = Inr v \<longrightarrow>
      asJson toString JSON_parse context = Inr v)
   \<and> (isSuccess context \<and> JSON_parse (toString (buffer context)) = Inl m \<longrightarrow>
      asJson toString JSON_parse context =
        Inl (SyntaxError (m @ '':'' @ [CHR 0x0A] @ toString (buffer context))))"
  by (simp add: asJson_def asText_def Let_def)

theorem asJson_cases_witness:
  "asJson (map (\<lambda>b. if b = 49 then CHR ''1'' else CHR ''x''))
      (\<lambda>s. if s = ''1'' then Inr (1::nat) else Inl ''Unexpected token'')
      \<lparr>res = \<lparr>headers = Map.empty, statusCode = Some 404\<rparr>, buffer = [49 :: byte]\<rparr>
     = Inl (Error ''Server returned 404'')
   \<and> asJson (map (\<lambda>b. if b = 49 then CHR ''1'' else CHR ''x''))
      (\<lambda>s. if s = ''1'' then Inr (1::nat) else Inl ''Unexpected token'')
      \<lparr>res = \<lparr>headers = Map.empty, statusCode = Some 200\<rparr>, buffer = [49 :: byte]\<rparr>
     = Inr 1
   \<and> asJson (map (\<lambda>b. if b = 49 then CHR ''1'' else CHR ''x''))
      (\<lambda>s. if s = ''1'' then Inr (1::nat) else Inl ''Unexpected token'')
      \<lparr>res = \<lparr>headers = Map.empty, statusCode = Some 204\<rparr>, buffer = [] :: byte list\<rparr>
     = Inl (SyntaxError (''Unexpected token'' @ '':'' @ [CHR 0x0A]))"
  using asJson_cases [of "\<lparr>res = \<lparr>headers = Map.empty, statusCode = Some 404\<rparr>, buffer = [49 :: byte]\<rparr>"
      "map (\<lambda>b. if b = 49 then CHR ''1'' else CHR ''x'')"
      "\<lambda>s. if s = ''1'' then Inr (1::nat) else Inl ''Unexpected token''" 1 "''Unexpected token''"]
    asJson_cases [of "\<lparr>res = \<lparr>headers = Map.empty, statusCode = Some 200\<rparr>, buffer = [49 :: byte]\<rparr>"
      "map (\<lambda>b. if b = 49 then CHR ''1'' else CHR ''x'')"
      "\<lambda>s. if s = ''1'' then Inr (1::nat) else Inl ''Unexpected token''" 1 "''Unexpected token''"]
    asJson_cases [of "\<lparr>res = \<lparr>headers = Map.empty, statusCode = Some 204\<rparr>, buffer = [] :: byte list\<rparr>"
      "map (\<lambda>b. if b = 49 then CHR ''1'' else CHR ''x'')"
      "\<lambda>s. if s = ''1'' then Inr (1::nat) else Inl ''Unexpected token''" 1 "''Unexpected token''"]
  by (simp add: isSuccess_def Let_def truthy_number_def concat_number_def number_toString_def
      digit_char_def)

section \<open>Properties of the delegating strategy\<close>

text \<open>
  C8. The claim is that for every preference-change event that contains \<^verbatim>\<open>'http.proxy'\<close>,
  \<^verbatim>\<open>'http.proxyAuthorization'\<close> or \<^verbatim>\<open>'http.proxyStrictSSL'\<close>, the listener calls \<open>configure\<close>
  with exactly the changed fields set to their new values, so that an event with only
  \<^verbatim>\<open>'http.proxyAuthorization'\<close> gives \<^verbatim>\<open>configure({proxyAuthorization: newValue})\<close>. The
  listener falls short of it: it tests the name \<^verbatim>\<open>'http.proxyAuthorization'\<close> and then reads
  \<^verbatim>\<open>e['proxyAuthorization']\<close>. On an event with only \<^verbatim>\<open>'http.proxyAuthorization'\<close> that is
  \<^verbatim>\<open>undefined\<close>, reading its \<^verbatim>\<open>newValue\<close> throws a \<^verbatim>\<open>TypeError\<close>, and \<open>configure\<close> is never
  called.
\<close>

theorem init_listener_proxyAuthorization_only:
  "init_listener XHR_configure
     \<lparr>http_proxy = None,
      http_proxyAuthorization = Some \<lparr>newValue = Some ''Basic abc'', oldValue = None\<rparr>,
      http_proxyStrictSSL = None, bare_proxyAuthorization = None\<rparr>
     \<lparr>backendConfigured = [], authorization = None\<rparr>
   = Inl (TypeError ''newValue'')"
  by (simp add: init_listener_def init_config_def)

text \<open>For the other two names the listener does build the changed fields; when both
  \<^verbatim>\<open>'http.proxyAuthorization'\<close> and \<^verbatim>\<open>'proxyAuthorization'\<close> are in the event, the value
  comes from the second.\<close>

lemma init_config_other_keys:
  "http_proxyAuthorization e = None \<Longrightarrow>
   init_config e =
     Inr \<lparr>proxyUrl = map_option newValue (http_proxy e), proxyAuthorization = None,
          strictSSL = map_option newValue (http_proxyStrictSSL e)\<rparr>"
  by (simp add: init_config_def Let_def split: option.splits)

lemma init_config_proxyAuthorization:
  "http_proxyAuthorization e = Some change \<Longrightarrow>
   init_config e =
     (case bare_proxyAuthorization e of
        None \<Rightarrow> Inl (TypeError ''newValue'')
      | Some other \<Rightarrow>
          Inr \<lparr>proxyUrl = map_option newValue (http_proxy e),
               proxyAuthorization = Some (newValue other),
               strictSSL = map_option newValue (http_proxyStrictSSL e)\<rparr>)"
  by (simp add: init_config_def Let_def split: option.splits)

text \<open>
  For every preference-change event without \<^verbatim>\<open>'http.proxyAuthorization'\<close>, the listener
  calls \<open>configure\<close> with a configuration that has \<^verbatim>\<open>proxyUrl\<close> exactly when the event
  contains \<^verbatim>\<open>'http.proxy'\<close> and \<^verbatim>\<open>strictSSL\<close> exactly when it contains
  \<^verbatim>\<open>'http.proxyStrictSSL'\<close>, each set to the new value, and no \<^verbatim>\<open>proxyAuthorization\<close>.
\<close>

theorem init_listener_other_keys:
  "http_proxyAuthorization e = None \<Longrightarrow>
   init_listener configure e this =
     Inr (configure
       \<lparr>proxyUrl = map_option newValue (http_proxy e), proxyAuthorization = None,
        strictSSL = map_option newValue (http_proxyStrictSSL e)\<rparr> this)"
  by (simp add: init_listener_def init_config_other_keys)

theorem init_listener_other_keys_witness:
  "init_listener XHR_configure
     \<lparr>http_proxy = Some \<lparr>newValue = Some ''http://proxy:8080'', oldValue = None\<rparr>,
      http_proxyAuthorization = None,
      http_proxyStrictSSL = Some \<lparr>newValue = Some False, oldValue = Some True\<rparr>,
      bare_proxyAuthorization = None\<rparr>
     \<lparr>backendConfigured = [], authorization = Some ''Basic abc''\<rparr>
   = Inr \<lparr>backendConfigured =
            [\<lparr>proxyUrl = Some (Some ''http://proxy:8080''), proxyAuthorization = None,
              strictSSL = Some (Some False)\<rparr>],
          authorization = Some ''Basic abc''\<rparr>"
proof -
  have h: "http_proxyAuthorization
     \<lparr>http_proxy = Some \<lparr>newValue = Some ''http://proxy:8080'', oldValue = None\<rparr>,
      http_proxyAuthorization = None,
      http_proxyStrictSSL = Some \<lparr>newValue = Some False, oldValue = Some True\<rparr>,
      bare_proxyAuthorization = None\<rparr> = None"
    by simp
  show ?thesis
    using init_listener_other_keys [OF h, of XHR_configure
        "\<lparr>backendConfigured = [], authorization = Some ''Basic abc''\<rparr>"]
    by (simp add: XHR_configure_def Default_configure_def)
qed

section \<open>Properties of the native strategy\<close>

text \<open>
  C10 (as amended). \<open>configure\<close> of the native strategy sets the cached authorization to the
  value of \<^verbatim>\<open>proxyAuthorization\<close> when the configuration has that key (to \<^verbatim>\<open>undefined\<close> when
  the key is present with no value), and leaves it as it was when the key is absent. So the
  cached value changes exactly when the key is present with a value other than the one
  cached: it changes only if the key is present, and a key present with the cached value
  changes nothing. The whole configuration is always forwarded to the inherited
  \<open>configure\<close>, which sends it to the backend.
\<close>

theorem XHR_configure_caches_authorization:
  "(RequestConfiguration.proxyAuthorization config = Some v \<longrightarrow>
      authorization (XHR_configure config this) = v)
   \<and> (RequestConfiguration.proxyAuthorization config = None \<longrightarrow>
      authorization (XHR_configure config this) = authorization this)
   \<and> (authorization (XHR_configure config this) \<noteq> authorization this \<longrightarrow>
      RequestConfiguration.proxyAuthorization config \<noteq> None)
   \<and> backendConfigured (XHR_configure config this) = backendConfigured this @ [config]
   \<and> (authorization (XHR_configure config this) \<noteq> authorization this \<longleftrightarrow>
      (\<exists>w. RequestConfiguration.proxyAuthorization config = Some w \<and> w \<noteq> authorization this))"
  by (auto simp: XHR_configure_def Default_configure_def split: option.splits)

theorem XHR_configure_caches_authorization_witness:
  "authorization (XHR_configure \<lparr>proxyUrl = None, proxyAuthorization = Some (Some ''Basic new''), strictSSL = None\<rparr>
      \<lparr>backendConfigured = [], authorization = Some ''Basic old''\<rparr>) = Some ''Basic new''
   \<and> authorization (XHR_configure \<lparr>proxyUrl = None, proxyAuthorization = Some None, strictSSL = None\<rparr>
      \<lparr>backendConfigured = [], authorization = Some ''Basic old''\<rparr>) = None
   \<and> authorization (XHR_configure \<lparr>proxyUrl = Some (Some ''http://proxy''), proxyAuthorization = None, strictSSL = None\<rparr>
      \<lparr>backendConfigured = [], authorization = Some ''Basic old''\<rparr>) = Some ''Basic old''
   \<and> backendConfigured (XHR_configure \<lparr>proxyUrl = Some (Some ''http://proxy''), proxyAuthorization = None, strictSSL = None\<rparr>
      \<lparr>backendConfigured = [], authorization = Some ''Basic old''\<rparr>)
     = [\<lparr>proxyUrl = Some (Some ''http://proxy''), proxyAuthorization = None, strictSSL = None\<rparr>]"
  using XHR_configure_caches_authorization [of "\<lparr>proxyUrl = None, proxyAuthorization = Some (Some ''Basic new''), strictSSL = None\<rparr>" "Some ''Basic new''" "\<lparr>backendConfigured = [], authorization = Some ''Basic old''\<rparr>"]
    XHR_configure_caches_authorization [of "\<lparr>proxyUrl = None, proxyAuthorization = Some None, strictSSL = None\<rparr>" None "\<lparr>backendConfigured = [], authorization = Some ''Basic old''\<rparr>"]
    XHR_configure_caches_authorization [of "\<lparr>proxyUrl = Some (Some ''http://proxy''), proxyAuthorization = None, strictSSL = None\<rparr>" None "\<lparr>backendConfigured = [], authorization = Some ''Basic old''\<rparr>"]
  by simp

text \<open>
  C10, counterexample to the claim as stated (the cached value changes if and only if the
  key is present): \<^verbatim>\<open>configure({proxyAuthorization: 'X'})\<close> on a service that has \<^verbatim>\<open>X\<close>
  cached has the key present and assigns the value, and the cached value is what it was.
\<close>

theorem XHR_configure_same_value_unchanged:
  "RequestConfiguration.proxyAuthorization
      \<lparr>proxyUrl = None, proxyAuthorization = Some (Some ''X''), strictSSL = None\<rparr>
     = Some (Some ''X'')
   \<and> authorization \<lparr>backendConfigured = [], authorization = Some ''X''\<rparr> = Some ''X''
   \<and> authorization (XHR_configure
        \<lparr>proxyUrl = None, proxyAuthorization = Some (Some ''X''), strictSSL = None\<rparr>
        \<lparr>backendConfigured = [], authorization = Some ''X''\<rparr>)
     = Some ''X''"
  by (simp add: XHR_configure_def Default_configure_def)

subsection \<open>Request headers\<close>




subsection \<open>The native request and its events\<close>

lemma settle_settled [simp]:
  "settle (Rejected err) outcome = Rejected err" "settle (Fulfilled x) outcome = Fulfilled x"
  "settle Pending outcome = outcome"
  by (simp_all add: settle_def)

lemma xhr_start_pending: "settled (xhr_start options) = Pending"
  by (simp add: xhr_start_def)

lemma xhr_handle_cancellation:
  "settled (xhr_handle options st OnCancellationRequested) = settle (settled st) (Rejected NoReason)"
  "calls (xhr_handle options st OnCancellationRequested) = calls st @ [Abort]"
  by (simp_all add: xhr_handle_def)

lemma xhr_handle_keeps_rejected:
  "settled st = Rejected err \<Longrightarrow> settled (xhr_handle options st ev) = Rejected err"
  by (cases ev) (simp_all add: xhr_handle_def)

lemma xhr_run_keeps_rejected:
  "settled st = Rejected err \<Longrightarrow> settled (foldl (xhr_handle options) st events) = Rejected err"
  by (induction events arbitrary: st) (simp_all add: xhr_handle_keeps_rejected)

lemma xhr_run_progress:
  "\<forall>ev \<in> set events. ev = OnProgress \<Longrightarrow> foldl (xhr_handle options) st events = st"
  by (induction events arbitrary: st) (simp_all add: xhr_handle_def)

lemma xhr_handle_calls_grow:
  "set (calls st) \<subseteq> set (calls (xhr_handle options st ev))"
  by (cases ev) (auto simp: xhr_handle_def)

lemma xhr_run_calls_grow:
  "set (calls st) \<subseteq> set (calls (foldl (xhr_handle options) st events))"
proof (induction events arbitrary: st)
  case Nil
  show ?case by simp
next
  case (Cons ev events)
  have "set (calls st) \<subseteq> set (calls (xhr_handle options st ev))"
    by (rule xhr_handle_calls_grow)
  also have "\<dots> \<subseteq> set (calls (foldl (xhr_handle options) (xhr_handle options st ev) events))"
    by (rule Cons.IH)
  finally show ?case by simp
qed






lemma xhr_options_frame:
  "xhr_options this options =
     options\<lparr>RequestOptions.headers := RequestOptions.headers (xhr_options this options)\<rparr>"
  by (simp add: xhr_options_def split: option.splits)

lemma xhr_options_no_authorization:
  "\<not> truthy_string (xhr_authorization this options) \<Longrightarrow> xhr_options this options = options"
  by (simp add: xhr_options_def truthy_string_def split: option.splits)

lemma xhr_options_authorization:
  "xhr_authorization this options = Some a \<Longrightarrow> a \<noteq> [] \<Longrightarrow>
   RequestOptions.headers (xhr_options this options) =
     Some (AList.update ''Proxy-Authorization'' a
       (case RequestOptions.headers options of None \<Rightarrow> [] | Some hs \<Rightarrow> hs))"
  by (simp add: xhr_options_def)

lemma getResponseHeaders_empty: "getResponseHeaders [] = Map.empty"
  by (simp add: getResponseHeaders_def split_lines_def)



lemma xhrRequest_cancelled:
  assumes "\<forall>ev \<in> set before. ev = OnProgress"
  shows "settled (xhrRequest this options (before @ OnCancellationRequested # after))
           = Rejected NoReason"
proof -
  let ?o = "xhr_options this options"
  have "foldl (xhr_handle ?o) (xhr_start ?o) before = xhr_start ?o"
    using assms by (rule xhr_run_progress)
  moreover have "settled (xhr_handle ?o (xhr_start ?o) OnCancellationRequested) = Rejected NoReason"
    by (simp add: xhr_handle_cancellation xhr_start_pending)
  ultimately show ?thesis
    by (simp add: xhrRequest_def xhr_run_keeps_rejected)
qed




text \<open>
  C9. While the native request is in flight (only events without a handler have arrived,
  and the promise is pending), a cancellation of the token aborts the request and rejects
  the promise at once, with no reason; whatever arrives afterwards, a load included, the
  promise stays rejected, so it is never fulfilled and the fallback of \<open>request\<close>, which
  follows the settled promise, comes after the rejection.
\<close>

theorem cancellation_rejects_before_completion:
  assumes "\<forall>ev \<in> set before. ev = OnProgress"
  shows "settled (xhrRequest this options before) = Pending
       \<and> settled (xhrRequest this options (before @ [OnCancellationRequested])) = Rejected NoReason
       \<and> Abort \<in> set (calls (xhrRequest this options (before @ [OnCancellationRequested])))
       \<and> settled (xhrRequest this options (before @ OnCancellationRequested # after))
           = Rejected NoReason
       \<and> Abort \<in> set (calls (xhrRequest this options (before @ OnCancellationRequested # after)))"
proof -
  let ?o = "xhr_options this options"
  let ?s = "xhr_start ?o"
  let ?c = "xhr_handle ?o ?s OnCancellationRequested"
  have b: "foldl (xhr_handle ?o) ?s before = ?s"
    using assms by (rule xhr_run_progress)
  have c: "settled ?c = Rejected NoReason \<and> Abort \<in> set (calls ?c)"
    by (simp add: xhr_handle_cancellation xhr_start_pending)
  have "settled (foldl (xhr_handle ?o) ?c after) = Rejected NoReason"
    using c by (simp add: xhr_run_keeps_rejected)
  moreover have "Abort \<in> set (calls (foldl (xhr_handle ?o) ?c after))"
    using c xhr_run_calls_grow [of ?c ?o after] by blast
  moreover have "settled ?s = Pending"
    by (rule xhr_start_pending)
  ultimately show ?thesis
    using b c by (simp add: xhrRequest_def)
qed

theorem cancellation_rejects_before_completion_witness:
  "settled (xhrRequest \<lparr>backendConfigured = [], authorization = None\<rparr>
      \<lparr>type = None, url = ''http://host/'', user = None, password = None,
       RequestOptions.headers = None, timeout = None, data = None, followRedirects = None,
       RequestOptions.proxyAuthorization = None\<rparr>
      [OnProgress, OnCancellationRequested, OnLoad 200 [] []]) = Rejected NoReason
   \<and> Abort \<in> set (calls (xhrRequest \<lparr>backendConfigured = [], authorization = None\<rparr>
      \<lparr>type = None, url = ''http://host/'', user = None, password = None,
       RequestOptions.headers = None, timeout = None, data = None, followRedirects = None,
       RequestOptions.proxyAuthorization = None\<rparr>
      [OnProgress, OnCancellationRequested, OnLoad 200 [] []]))"
proof -
  have b: "\<forall>ev \<in> set [OnProgress]. ev = OnProgress"
    by simp
  show ?thesis
    using cancellation_rejects_before_completion [OF b,
        of "\<lparr>backendConfigured = [], authorization = None\<rparr>"
        "\<lparr>type = None, url = ''http://host/'', user = None, password = None,
       RequestOptions.headers = None, timeout = None, data = None, followRedirects = None,
       RequestOptions.proxyAuthorization = None\<rparr>" "[OnLoad 200 [] []]"]
    by simp
qed

text \<open>
  C1 (as amended). When the native attempt rejects, for whatever reason, or is fulfilled
  with status 405, \<open>request\<close> calls the inherited \<open>request\<close> once, with the caller's options
  object as \<open>xhrRequest\<close> left it, and returns what that call returns. That object differs
  from what the caller supplied in its headers at most: it is unmodified when there is no
  non-empty authorization in effect, and otherwise its headers are the caller's with
  \<^verbatim>\<open>Proxy-Authorization\<close> set to that authorization.
\<close>

theorem XHR_request_falls_back:
  assumes "settled (xhrRequest this options events) = Rejected err
         \<or> (settled (xhrRequest this options events) = Fulfilled xhrResult
            \<and> statusCode (res xhrResult) = Some 405)"
  shows "delegated (XHR_request ready backend_request this options events)
           = [xhr_options this options]
       \<and> returned (XHR_request ready backend_request this options events)
           = Default_request ready backend_request (xhr_options this options)
       \<and> xhr_options this options
           = options\<lparr>RequestOptions.headers := RequestOptions.headers (xhr_options this options)\<rparr>
       \<and> (\<not> truthy_string (xhr_authorization this options) \<longrightarrow>
            xhr_options this options = options)
       \<and> (\<forall>a. xhr_authorization this options = Some a \<and> a \<noteq> [] \<longrightarrow>
            RequestOptions.headers (xhr_options this options) =
              Some (AList.update ''Proxy-Authorization'' a
                (case RequestOptions.headers options of None \<Rightarrow> [] | Some hs \<Rightarrow> hs)))"
proof -
  have "delegated (XHR_request ready backend_request this options events)
           = [xhr_options this options]
       \<and> returned (XHR_request ready backend_request this options events)
           = Default_request ready backend_request (xhr_options this options)"
    using assms by (auto simp: XHR_request_def Let_def)
  then show ?thesis
    using xhr_options_frame [of this options] xhr_options_no_authorization [of this options]
      xhr_options_authorization [of this options]
    by blast
qed

theorem XHR_request_falls_back_witness:
  "delegated (XHR_request (Fulfilled ())
      (\<lambda>options. Fulfilled \<lparr>res = \<lparr>headers = Map.empty, statusCode = Some 200\<rparr>, buffer = [104, 105]\<rparr>)
      \<lparr>backendConfigured = [], authorization = None\<rparr>
      \<lparr>type = Some ''PROPFIND'', url = ''http://host/'', user = None, password = None,
       RequestOptions.headers = Some [(''X-Custom'', ''Y'')], timeout = None,
       data = Some ''body'', followRedirects = None, RequestOptions.proxyAuthorization = None\<rparr>
      [OnLoad 405 [] []])
     = [\<lparr>type = Some ''PROPFIND'', url = ''http://host/'', user = None, password = None,
       RequestOptions.headers = Some [(''X-Custom'', ''Y'')], timeout = None,
       data = Some ''body'', followRedirects = None, RequestOptions.proxyAuthorization = None\<rparr>]
   \<and> returned (XHR_request (Fulfilled ())
      (\<lambda>options. Fulfilled \<lparr>res = \<lparr>headers = Map.empty, statusCode = Some 200\<rparr>, buffer = [104, 105]\<rparr>)
      \<lparr>backendConfigured = [], authorization = None\<rparr>
      \<lparr>type = Some ''PROPFIND'', url = ''http://host/'', user = None, password = None,
       RequestOptions.headers = Some [(''X-Custom'', ''Y'')], timeout = None,
       data = Some ''body'', followRedirects = None, RequestOptions.proxyAuthorization = None\<rparr>
      [OnLoad 405 [] []])
     = Fulfilled \<lparr>res = \<lparr>headers = Map.empty, statusCode = Some 200\<rparr>, buffer = [104, 105 :: byte]\<rparr>
   \<and> returned (XHR_request (Fulfilled ())
      (\<lambda>options. Fulfilled \<lparr>res = \<lparr>headers = Map.empty, statusCode = Some 200\<rparr>, buffer = [104, 105]\<rparr>)
      \<lparr>backendConfigured = [], authorization = None\<rparr>
      \<lparr>type = Some ''PROPFIND'', url = ''http://host/'', user = None, password = None,
       RequestOptions.headers = Some [(''X-Custom'', ''Y'')], timeout = None,
       data = Some ''body'', followRedirects = None, RequestOptions.proxyAuthorization = None\<rparr>
      [OnError ''Bad Gateway''])
     = Fulfilled \<lparr>res = \<lparr>headers = Map.empty, statusCode = Some 200\<rparr>, buffer = [104, 105 :: byte]\<rparr>"
proof -
  let ?service = "\<lparr>backendConfigured = [], authorization = None\<rparr>"
  let ?options = "\<lparr>type = Some ''PROPFIND'', url = ''http://host/'', user = None, password = None,
       RequestOptions.headers = Some [(''X-Custom'', ''Y'')], timeout = None,
       data = Some ''body'', followRedirects = None, RequestOptions.proxyAuthorization = None\<rparr>"
  let ?result = "\<lparr>res = \<lparr>headers = Map.empty, statusCode = Some 405\<rparr>, buffer = [] :: byte list\<rparr>"
  have o: "xhr_options ?service ?options = ?options"
    by (simp add: xhr_options_def xhr_authorization_def or_undefined_def truthy_string_def)
  have h: "settled (xhrRequest ?service ?options [OnLoad 405 [] []]) = Rejected NoReason
         \<or> (settled (xhrRequest ?service ?options [OnLoad 405 [] []]) = Fulfilled ?result
            \<and> statusCode (res ?result) = Some 405)"
    by (simp add: xhrRequest_def xhr_handle_def xhr_start_pending getResponseHeaders_empty)
  have e: "settled (xhrRequest ?service ?options [OnError ''Bad Gateway''])
           = Rejected (Error ''XHR failed: Bad Gateway'')
         \<or> (settled (xhrRequest ?service ?options [OnError ''Bad Gateway'']) = Fulfilled ?result
            \<and> statusCode (res ?result) = Some 405)"
    by (simp add: xhrRequest_def xhr_handle_def xhr_start_pending)
  show ?thesis
    using XHR_request_falls_back [OF h, of "Fulfilled ()"
        "\<lambda>options. Fulfilled \<lparr>res = \<lparr>headers = Map.empty, statusCode = Some 200\<rparr>, buffer = [104, 105]\<rparr>"]
      XHR_request_falls_back [OF e, of "Fulfilled ()"
        "\<lambda>options. Fulfilled \<lparr>res = \<lparr>headers = Map.empty, statusCode = Some 200\<rparr>, buffer = [104, 105]\<rparr>"]
    by (simp add: o Default_request_def transformBackendResponse_def)
qed

text \<open>
  C1, counterexample to the claim as stated (the delegate receives the original options
  unmodified): with \<^verbatim>\<open>Basic abc\<close> cached by \<open>configure\<close> and options without headers, a
  native attempt that ends with status 405 delegates options whose headers hold
  \<^verbatim>\<open>Proxy-Authorization: Basic abc\<close>, not the options the caller supplied.
\<close>

theorem XHR_request_delegates_modified_options:
  "settled (xhrRequest \<lparr>backendConfigured = [], authorization = Some ''Basic abc''\<rparr>
      \<lparr>type = None, url = ''http://host/'', user = None, password = None,
       RequestOptions.headers = None, timeout = None, data = None, followRedirects = None,
       RequestOptions.proxyAuthorization = None\<rparr>
      [OnLoad 405 [] []])
     = Fulfilled \<lparr>res = \<lparr>headers = Map.empty, statusCode = Some 405\<rparr>, buffer = []\<rparr>
   \<and> delegated (XHR_request (Fulfilled ()) (\<lambda>options. Pending)
      \<lparr>backendConfigured = [], authorization = Some ''Basic abc''\<rparr>
      \<lparr>type = None, url = ''http://host/'', user = None, password = None,
       RequestOptions.headers = None, timeout = None, data = None, followRedirects = None,
       RequestOptions.proxyAuthorization = None\<rparr>
      [OnLoad 405 [] []])
     = [\<lparr>type = None, url = ''http://host/'', user = None, password = None,
       RequestOptions.headers = Some [(''Proxy-Authorization'', ''Basic abc'')],
       timeout = None, data = None, followRedirects = None,
       RequestOptions.proxyAuthorization = None\<rparr>]
   \<and> delegated (XHR_request (Fulfilled ()) (\<lambda>options. Pending)
      \<lparr>backendConfigured = [], authorization = Some ''Basic abc''\<rparr>
      \<lparr>type = None, url = ''http://host/'', user = None, password = None,
       RequestOptions.headers = None, timeout = None, data = None, followRedirects = None,
       RequestOptions.proxyAuthorization = None\<rparr>
      [OnLoad 405 [] []])
     \<noteq> [\<lparr>type = None, url = ''http://host/'', user = None, password = None,
       RequestOptions.headers = None, timeout = None, data = None, followRedirects = None,
       RequestOptions.proxyAuthorization = None\<rparr>]"
  by (simp add: XHR_request_def xhrRequest_def xhr_handle_def xhr_start_pending
      getResponseHeaders_empty xhr_options_def xhr_authorization_def or_undefined_def
      truthy_string_def Let_def)

text \<open>
  When the native attempt is fulfilled with a status other than 405, \<open>request\<close> returns the
  native result as it is, whether a success or not, and does not call the inherited
  \<open>request\<close>.
\<close>

theorem XHR_request_returns_native_result:
  "settled (xhrRequest this options events) = Fulfilled xhrResult \<Longrightarrow>
   statusCode (res xhrResult) \<noteq> Some 405 \<Longrightarrow>
   returned (XHR_request ready backend_request this options events) = Fulfilled xhrResult
   \<and> delegated (XHR_request ready backend_request this options events) = []"
  by (simp add: XHR_request_def Let_def)

theorem XHR_request_returns_native_result_witness:
  "returned (XHR_request Pending (\<lambda>options. Pending)
      \<lparr>backendConfigured = [], authorization = None\<rparr>
      \<lparr>type = None, url = ''http://host/'', user = None, password = None,
       RequestOptions.headers = None, timeout = None, data = None, followRedirects = None,
       RequestOptions.proxyAuthorization = None\<rparr>
      [OnLoad 404 [] [104, 105]])
     = Fulfilled \<lparr>res = \<lparr>headers = Map.empty, statusCode = Some 404\<rparr>, buffer = [104, 105]\<rparr>
   \<and> delegated (XHR_request Pending (\<lambda>options. Pending)
      \<lparr>backendConfigured = [], authorization = None\<rparr>
      \<lparr>type = None, url = ''http://host/'', user = None, password = None,
       RequestOptions.headers = None, timeout = None, data = None, followRedirects = None,
       RequestOptions.proxyAuthorization = None\<rparr>
      [OnLoad 404 [] [104, 105]]) = []"
proof -
  let ?service = "\<lparr>backendConfigured = [], authorization = None\<rparr>"
  let ?options = "\<lparr>type = None, url = ''http://host/'', user = None, password = None,
       RequestOptions.headers = None, timeout = None, data = None, followRedirects = None,
       RequestOptions.proxyAuthorization = None\<rparr>"
  let ?result = "\<lparr>res = \<lparr>headers = Map.empty, statusCode = Some 404\<rparr>, buffer = [104, 105 :: byte]\<rparr>"
  have h: "settled (xhrRequest ?service ?options [OnLoad 404 [] [104, 105]]) = Fulfilled ?result"
    by (simp add: xhrRequest_def xhr_handle_def xhr_start_pending getResponseHeaders_empty)
  have s: "statusCode (res ?result) \<noteq> Some 405"
    by simp
  show ?thesis
    using XHR_request_returns_native_result [OF h s, of Pending "\<lambda>options. Pending"]
    by simp
qed

text \<open>
  A cancellation that arrives while the native request is in flight makes \<open>request\<close> fall
  back: the rejection of the native promise is caught like any other, the inherited
  \<open>request\<close> is called, and its result returned.
\<close>

theorem XHR_request_falls_back_after_cancellation:
  assumes "\<forall>ev \<in> set before. ev = OnProgress"
  shows "delegated (XHR_request ready backend_request this options
            (before @ OnCancellationRequested # after)) = [xhr_options this options]
       \<and> returned (XHR_request ready backend_request this options
            (before @ OnCancellationRequested # after))
           = Default_request ready backend_request (xhr_options this options)"
  using xhrRequest_cancelled [OF assms, of this options after]
  by (simp add: XHR_request_def Let_def)

theorem XHR_request_falls_back_after_cancellation_witness:
  "returned (XHR_request (Fulfilled ())
      (\<lambda>options. Fulfilled \<lparr>res = \<lparr>headers = Map.empty, statusCode = Some 200\<rparr>, buffer = [104, 105]\<rparr>)
      \<lparr>backendConfigured = [], authorization = None\<rparr>
      \<lparr>type = None, url = ''http://host/'', user = None, password = None,
       RequestOptions.headers = None, timeout = None, data = None, followRedirects = None,
       RequestOptions.proxyAuthorization = None\<rparr>
      [OnProgress, OnCancellationRequested])
     = Fulfilled \<lparr>res = \<lparr>headers = Map.empty, statusCode = Some 200\<rparr>, buffer = [104, 105 :: byte]\<rparr>"
proof -
  have b: "\<forall>ev \<in> set [OnProgress]. ev = OnProgress"
    by simp
  show ?thesis
    using XHR_request_falls_back_after_cancellation [OF b, of "Fulfilled ()"
        "\<lambda>options. Fulfilled \<lparr>res = \<lparr>headers = Map.empty, statusCode = Some 200\<rparr>, buffer = [104, 105]\<rparr>"
        "\<lparr>backendConfigured = [], authorization = None\<rparr>"
        "\<lparr>type = None, url = ''http://host/'', user = None, password = None,
       RequestOptions.headers = None, timeout = None, data = None, followRedirects = None,
       RequestOptions.proxyAuthorization = None\<rparr>" "[]"]
    by (simp add: xhr_options_def xhr_authorization_def or_undefined_def truthy_string_def
        Default_request_def transformBackendResponse_def)
qed




section \<open>Properties of response-header parsing\<close>

lemma split_lines_from_no_terminators:
  "CHR 0x0D \<notin> set cur \<Longrightarrow> CHR 0x0A \<notin> set cur \<Longrightarrow>
   \<forall>l \<in> set (split_lines_from cur s). CHR 0x0D \<notin> set l \<and> CHR 0x0A \<notin> set l"
  by (induction cur s rule: split_lines_from.induct) auto

lemma concat_split_lines_from:
  "concat (split_lines_from cur s) = cur @ filter (\<lambda>c. c \<noteq> CHR 0x0D \<and> c \<noteq> CHR 0x0A) s"
  by (induction cur s rule: split_lines_from.induct) auto

lemma indexOf_present:
  "c \<in> set s \<Longrightarrow> indexOf s c = int (length (takeWhile (\<lambda>x. x \<noteq> c) s))"
  by (induction s) (auto simp: Let_def)

lemma indexOf_absent: "c \<notin> set s \<Longrightarrow> indexOf s c = - 1"
  by (induction s) (auto simp: Let_def)

lemma substr_prefix: "n \<le> length s \<Longrightarrow> substr s 0 (Some (int n)) = take n s"
  by (simp add: substr_def Let_def)

lemma substr_suffix: "n \<le> length s \<Longrightarrow> substr s (int n) None = drop n s"
  by (simp add: substr_def Let_def)

lemma header_line_colon:
  assumes "CHR '':'' \<in> set line"
  shows "header_line line =
     (toLowerCase (trim (takeWhile (\<lambda>c. c \<noteq> CHR '':'') line)),
      trim (tl (dropWhile (\<lambda>c. c \<noteq> CHR '':'') line)))"
proof -
  let ?n = "length (takeWhile (\<lambda>c. c \<noteq> CHR '':'') line)"
  have idx: "indexOf line (CHR '':'') = int ?n"
    using assms by (rule indexOf_present)
  have lt: "?n < length line"
    using assms by (induction line) auto
  have "substr line 0 (Some (int ?n)) = take ?n line"
    using lt by (simp add: substr_prefix)
  then have name: "substr line 0 (Some (int ?n)) = takeWhile (\<lambda>c. c \<noteq> CHR '':'') line"
    by (simp add: takeWhile_eq_take [symmetric])
  have "substr line (int (Suc ?n)) None = drop (Suc ?n) line"
    using lt by (intro substr_suffix) simp
  also have "\<dots> = tl (drop ?n line)"
    by (simp add: drop_Suc tl_drop)
  also have "\<dots> = tl (dropWhile (\<lambda>c. c \<noteq> CHR '':'') line)"
    by (simp add: dropWhile_eq_drop [symmetric])
  finally have "substr line (int ?n + 1) None = tl (dropWhile (\<lambda>c. c \<noteq> CHR '':'') line)"
    by (simp add: add.commute)
  with name idx show ?thesis
    by (simp add: header_line_def Let_def)
qed

lemma header_line_no_colon:
  assumes "CHR '':'' \<notin> set line"
  shows "header_line line = ([], trim line)"
proof -
  have "indexOf line (CHR '':'') = - 1"
    using assms by (rule indexOf_absent)
  then show ?thesis
    by (simp add: header_line_def Let_def substr_def trim_def toLowerCase_def)
qed

lemma getResponseHeaders_filter:
  "foldl (\<lambda>headers line.
              if line \<noteq> [] then set_header (fst (header_line line)) (snd (header_line line)) headers
              else headers) hs ls
   = foldl (\<lambda>headers line. set_header (fst (header_line line)) (snd (header_line line)) headers)
       hs (filter (\<lambda>line. line \<noteq> []) ls)"
  by (induction ls arbitrary: hs) simp_all

lemma split_lines_from_plain:
  "c \<noteq> CHR 0x0D \<Longrightarrow> c \<noteq> CHR 0x0A \<Longrightarrow>
   split_lines_from cur (c # s) = split_lines_from (cur @ [c]) s"
  by (cases s) simp_all

lemma split_lines_from_line:
  "CHR 0x0D \<notin> set l \<Longrightarrow> CHR 0x0A \<notin> set l \<Longrightarrow>
   split_lines_from cur (l @ s) = split_lines_from (cur @ l) s"
proof (induction l arbitrary: cur)
  case Nil
  show ?case by simp
next
  case (Cons a l)
  then have a: "a \<noteq> CHR 0x0D" "a \<noteq> CHR 0x0A" and l: "CHR 0x0D \<notin> set l" "CHR 0x0A \<notin> set l"
    by auto
  have "split_lines_from cur ((a # l) @ s) = split_lines_from (cur @ [a]) (l @ s)"
    using a by (simp add: split_lines_from_plain)
  also have "\<dots> = split_lines_from ((cur @ [a]) @ l) s"
    using l by (rule Cons.IH)
  finally show ?case by simp
qed

lemma split_lines_from_CR_LF:
  "split_lines_from cur (CHR 0x0D # CHR 0x0A # s) = cur # split_lines_from [] s"
  by simp

lemma split_lines_from_LF:
  "split_lines_from cur (CHR 0x0A # s) = cur # split_lines_from [] s"
  by (cases s) simp_all

lemma split_lines_from_CR:
  "take 1 s \<noteq> [CHR 0x0A] \<Longrightarrow>
   split_lines_from cur (CHR 0x0D # s) = cur # split_lines_from [] s"
  by (cases s) simp_all

lemma split_lines_no_terminator:
  "CHR 0x0D \<notin> set s \<Longrightarrow> CHR 0x0A \<notin> set s \<Longrightarrow> split_lines s = [s]"
  using split_lines_from_line [of s "[]" "[]"] by (simp add: split_lines_def)

lemma split_lines_first_terminator:
  assumes "CHR 0x0D \<notin> set l" and "CHR 0x0A \<notin> set l"
  shows "split_lines (l @ CHR 0x0D # CHR 0x0A # s) = l # split_lines s"
    and "split_lines (l @ CHR 0x0A # s) = l # split_lines s"
    and "take 1 s \<noteq> [CHR 0x0A] \<Longrightarrow> split_lines (l @ CHR 0x0D # s) = l # split_lines s"
  using assms
  by (simp_all add: split_lines_def split_lines_from_line split_lines_from_CR_LF
      split_lines_from_LF split_lines_from_CR)

lemma example_lines:
  "split_lines
     (''Content-Type: text/plain'' @ [CHR 0x0D, CHR 0x0A] @ ''X-Foo: Bar'' @ [CHR 0x0D, CHR 0x0A])
   = [''Content-Type: text/plain'', ''X-Foo: Bar'', []]"
  by (simp add: split_lines_def)

lemma example_names:
  "toLowerCase ''Content-Type'' = ''content-type''" "toLowerCase ''X-Foo'' = ''x-foo''"
  by code_simp+

lemma example_header_lines:
  "header_line ''Content-Type: text/plain'' = (''content-type'', ''text/plain'')"
  "header_line ''X-Foo: Bar'' = (''x-foo'', ''Bar'')"
  by (simp_all add: header_line_def substr_def trim_def isWhiteSpace_def example_names)

lemma example_headers:
  "getResponseHeaders
     (''Content-Type: text/plain'' @ [CHR 0x0D, CHR 0x0A] @ ''X-Foo: Bar'' @ [CHR 0x0D, CHR 0x0A])
   = [''content-type'' \<mapsto> ''text/plain'', ''x-foo'' \<mapsto> ''Bar'']"
  unfolding getResponseHeaders_def example_lines
  by (simp add: example_header_lines set_header_def)

text \<open>
  C7 (as amended). \<open>getResponseHeaders\<close> splits the block at every CR LF, LF or CR: a text
  without CR and LF is one line, and a text that goes on after such a line with CR LF, with
  LF, or with a CR that no LF follows, has that line first and then the lines of what comes
  after the separator; so no line holds a CR or LF, and the lines together are the block
  without them. It skips the empty lines and assigns, for each other line in turn, the
  header named by the line: the object gets that property, under every name but
  \<^verbatim>\<open>__proto__\<close>, for which the assignment sets nothing. A line with a colon names the text
  before its first colon, trimmed and in lower case, with the text after that colon,
  trimmed, as its value. The value keeps its case: the block \<^verbatim>\<open>Content-Type: text/plain\<close>
  CR LF \<^verbatim>\<open>X-Foo: Bar\<close> CR LF parses to \<^verbatim>\<open>content-type\<close> with \<^verbatim>\<open>text/plain\<close> and \<^verbatim>\<open>x-foo\<close> with
  \<^verbatim>\<open>Bar\<close>.
\<close>

theorem getResponseHeaders_parses:
  "(\<forall>line. CHR '':'' \<in> set line \<longrightarrow>
         header_line line =
           (toLowerCase (trim (takeWhile (\<lambda>c. c \<noteq> CHR '':'') line)),
            trim (tl (dropWhile (\<lambda>c. c \<noteq> CHR '':'') line))))
   \<and> (\<forall>l rest. CHR 0x0D \<notin> set l \<and> CHR 0x0A \<notin> set l \<longrightarrow>
         split_lines l = [l]
         \<and> split_lines (l @ CHR 0x0D # CHR 0x0A # rest) = l # split_lines rest
         \<and> split_lines (l @ CHR 0x0A # rest) = l # split_lines rest
         \<and> (take 1 rest \<noteq> [CHR 0x0A] \<longrightarrow>
              split_lines (l @ CHR 0x0D # rest) = l # split_lines rest))
   \<and> (\<forall>line \<in> set (split_lines allResponseHeaders). CHR 0x0D \<notin> set line \<and> CHR 0x0A \<notin> set line)
   \<and> concat (split_lines allResponseHeaders)
       = filter (\<lambda>c. c \<noteq> CHR 0x0D \<and> c \<noteq> CHR 0x0A) allResponseHeaders
   \<and> getResponseHeaders allResponseHeaders
       = foldl (\<lambda>headers line. set_header (fst (header_line line)) (snd (header_line line)) headers)
           Map.empty (filter (\<lambda>line. line \<noteq> []) (split_lines allResponseHeaders))
   \<and> (\<forall>name v object. name \<noteq> ''__proto__'' \<longrightarrow> set_header name v object = object(name \<mapsto> v))
   \<and> (\<forall>v object. set_header ''__proto__'' v object = object)
   \<and> getResponseHeaders
        (''Content-Type: text/plain'' @ [CHR 0x0D, CHR 0x0A] @ ''X-Foo: Bar'' @ [CHR 0x0D, CHR 0x0A])
       = [''content-type'' \<mapsto> ''text/plain'', ''x-foo'' \<mapsto> ''Bar'']"
proof (intro conjI)
  show "\<forall>line. CHR '':'' \<in> set line \<longrightarrow>
         header_line line =
           (toLowerCase (trim (takeWhile (\<lambda>c. c \<noteq> CHR '':'') line)),
            trim (tl (dropWhile (\<lambda>c. c \<noteq> CHR '':'') line)))"
    by (intro allI impI) (rule header_line_colon)
  show "\<forall>l rest. CHR 0x0D \<notin> set l \<and> CHR 0x0A \<notin> set l \<longrightarrow>
         split_lines l = [l]
         \<and> split_lines (l @ CHR 0x0D # CHR 0x0A # rest) = l # split_lines rest
         \<and> split_lines (l @ CHR 0x0A # rest) = l # split_lines rest
         \<and> (take 1 rest \<noteq> [CHR 0x0A] \<longrightarrow>
              split_lines (l @ CHR 0x0D # rest) = l # split_lines rest)"
    by (simp add: split_lines_no_terminator split_lines_first_terminator)
  show "\<forall>line \<in> set (split_lines allResponseHeaders). CHR 0x0D \<notin> set line \<and> CHR 0x0A \<notin> set line"
    unfolding split_lines_def by (rule split_lines_from_no_terminators) simp_all
  show "concat (split_lines allResponseHeaders)
       = filter (\<lambda>c. c \<noteq> CHR 0x0D \<and> c \<noteq> CHR 0x0A) allResponseHeaders"
    by (simp add: split_lines_def concat_split_lines_from)
  show "getResponseHeaders allResponseHeaders
       = foldl (\<lambda>headers line. set_header (fst (header_line line)) (snd (header_line line)) headers)
           Map.empty (filter (\<lambda>line. line \<noteq> []) (split_lines allResponseHeaders))"
    unfolding getResponseHeaders_def by (rule getResponseHeaders_filter)
  show "\<forall>name v object. name \<noteq> ''__proto__'' \<longrightarrow> set_header name v object = object(name \<mapsto> v)"
    by (simp add: set_header_def)
  show "\<forall>v object. set_header ''__proto__'' v object = object"
    by (simp add: set_header_def)
  show "getResponseHeaders
        (''Content-Type: text/plain'' @ [CHR 0x0D, CHR 0x0A] @ ''X-Foo: Bar'' @ [CHR 0x0D, CHR 0x0A])
       = [''content-type'' \<mapsto> ''text/plain'', ''x-foo'' \<mapsto> ''Bar'']"
    by (rule example_headers)
qed

theorem getResponseHeaders_parses_witness:
  "header_line ''X-Foo: Bar'' = (''x-foo'', ''Bar'')
   \<and> split_lines (''X-Foo: Bar'' @ CHR 0x0D # CHR 0x0A # ''__proto__: x'')
       = [''X-Foo: Bar'', ''__proto__: x'']
   \<and> getResponseHeaders (''X-Foo: Bar'' @ CHR 0x0D # CHR 0x0A # ''__proto__: x'')
       = [''x-foo'' \<mapsto> ''Bar'']"
proof -
  note t = getResponseHeaders_parses [of "''X-Foo: Bar'' @ CHR 0x0D # CHR 0x0A # ''__proto__: x''"]
  note colon = t [THEN conjunct1, THEN spec, THEN mp]
  note lines = t [THEN conjunct2, THEN conjunct1, THEN spec, THEN spec, THEN mp]
  note fold = t [THEN conjunct2, THEN conjunct2, THEN conjunct2, THEN conjunct2, THEN conjunct1]
  note set = t [THEN conjunct2, THEN conjunct2, THEN conjunct2, THEN conjunct2, THEN conjunct2,
      THEN conjunct1, THEN spec, THEN spec, THEN spec, THEN mp]
  note proto = t [THEN conjunct2, THEN conjunct2, THEN conjunct2, THEN conjunct2,
      THEN conjunct2, THEN conjunct2, THEN conjunct1, THEN spec, THEN spec]
  have "header_line ''X-Foo: Bar'' =
           (toLowerCase (trim (takeWhile (\<lambda>c. c \<noteq> CHR '':'') ''X-Foo: Bar'')),
            trim (tl (dropWhile (\<lambda>c. c \<noteq> CHR '':'') ''X-Foo: Bar'')))"
    by (rule colon) simp
  then have 1: "header_line ''X-Foo: Bar'' = (''x-foo'', ''Bar'')"
    by (simp add: trim_def isWhiteSpace_def example_names)
  have "header_line ''__proto__: x'' =
           (toLowerCase (trim (takeWhile (\<lambda>c. c \<noteq> CHR '':'') ''__proto__: x'')),
            trim (tl (dropWhile (\<lambda>c. c \<noteq> CHR '':'') ''__proto__: x'')))"
    by (rule colon) simp
  moreover have "toLowerCase ''__proto__'' = ''__proto__''"
    by code_simp
  ultimately have 2: "header_line ''__proto__: x'' = (''__proto__'', ''x'')"
    by (simp add: trim_def isWhiteSpace_def)
  have a: "CHR 0x0D \<notin> set ''X-Foo: Bar'' \<and> CHR 0x0A \<notin> set ''X-Foo: Bar''"
    by simp
  have b: "CHR 0x0D \<notin> set ''__proto__: x'' \<and> CHR 0x0A \<notin> set ''__proto__: x''"
    by simp
  have 3: "split_lines (''X-Foo: Bar'' @ CHR 0x0D # CHR 0x0A # ''__proto__: x'')
       = [''X-Foo: Bar'', ''__proto__: x'']"
    using lines [OF a, of "''__proto__: x''"] lines [OF b, of "[]"] by simp
  have n: "''x-foo'' \<noteq> ''__proto__''"
    by simp
  have 4: "getResponseHeaders (''X-Foo: Bar'' @ CHR 0x0D # CHR 0x0A # ''__proto__: x'')
       = [''x-foo'' \<mapsto> ''Bar'']"
    unfolding fold 3 by (simp add: 1 2 set [OF n] proto)
  from 1 3 4 show ?thesis
    by (rule conjI [OF _ conjI])
qed

text \<open>
  C7, counterexample to the claim as stated (the example parses to \<^verbatim>\<open>x-foo\<close> with
  \<^verbatim>\<open>bar\<close>): the parsed value of \<^verbatim>\<open>x-foo\<close> is \<^verbatim>\<open>Bar\<close>, so the parsed headers are not the
  mapping the claim gives.
\<close>

theorem getResponseHeaders_example_value_case:
  "getResponseHeaders
     (''Content-Type: text/plain'' @ [CHR 0x0D, CHR 0x0A] @ ''X-Foo: Bar'' @ [CHR 0x0D, CHR 0x0A])
     ''x-foo'' = Some ''Bar''
   \<and> getResponseHeaders
     (''Content-Type: text/plain'' @ [CHR 0x0D, CHR 0x0A] @ ''X-Foo: Bar'' @ [CHR 0x0D, CHR 0x0A])
     \<noteq> [''content-type'' \<mapsto> ''text/plain'', ''x-foo'' \<mapsto> ''bar'']"
proof -
  have v: "getResponseHeaders
     (''Content-Type: text/plain'' @ [CHR 0x0D, CHR 0x0A] @ ''X-Foo: Bar'' @ [CHR 0x0D, CHR 0x0A])
     ''x-foo'' = Some ''Bar''"
    unfolding example_headers by simp
  have w: "[''content-type'' \<mapsto> ''text/plain'', ''x-foo'' \<mapsto> ''bar''] ''x-foo'' = Some ''bar''"
    by simp
  have "getResponseHeaders
     (''Content-Type: text/plain'' @ [CHR 0x0D, CHR 0x0A] @ ''X-Foo: Bar'' @ [CHR 0x0D, CHR 0x0A])
     \<noteq> [''content-type'' \<mapsto> ''text/plain'', ''x-foo'' \<mapsto> ''bar'']"
  proof
    assume "getResponseHeaders
     (''Content-Type: text/plain'' @ [CHR 0x0D, CHR 0x0A] @ ''X-Foo: Bar'' @ [CHR 0x0D, CHR 0x0A])
     = [''content-type'' \<mapsto> ''text/plain'', ''x-foo'' \<mapsto> ''bar'']"
    then have "Some ''Bar'' = Some ''bar''"
      using v w by (simp only:)
    then show False by simp
  qed
  with v show ?thesis by (rule conjI)
qed

text \<open>
  A non-empty line without a colon sets the header with the empty name to the whole line,
  trimmed: \<^verbatim>\<open>indexOf\<close> gives -1, so the name is \<^verbatim>\<open>substr(0, -1)\<close>, the empty string, and the
  value is \<^verbatim>\<open>substr(0)\<close>.
\<close>

theorem header_line_without_colon:
  "CHR '':'' \<notin> set line \<Longrightarrow> header_line line = ([], trim line)"
  by (rule header_line_no_colon)

theorem header_line_without_colon_witness:
  "header_line ''HTTP/1.1 200 OK '' = ([], ''HTTP/1.1 200 OK'')"
proof -
  have h: "CHR '':'' \<notin> set ''HTTP/1.1 200 OK ''"
    by simp
  show ?thesis
    using header_line_without_colon [OF h] by (simp add: trim_def isWhiteSpace_def)
qed

end
